theory Spec2Isabelle
  imports Complex_Main
begin

section \<open>JavaScript numbers\<close>

text \<open>
  The renal formulas of the application are written in TypeScript and run on
  JavaScript numbers.  A number is modelled as a real, extended by the three
  special values the formulas can produce (\<open>Infinity\<close>, \<open>-Infinity\<close> and
  \<open>NaN\<close>), because a division by zero or a power of a non-positive base does
  not raise in JavaScript: it yields one of these values.  Finite values are
  idealised: rounding to 64-bit precision, overflow, underflow and the sign of
  zero are not modelled.
\<close>

datatype jsnum = Num real | PosInf | NegInf | NaN

definition isNaN :: "jsnum \<Rightarrow> bool" where
  "isNaN x = (x = NaN)"

fun js_sub :: "jsnum \<Rightarrow> jsnum \<Rightarrow> jsnum" where
  "js_sub NaN y = NaN"
| "js_sub x NaN = NaN"
| "js_sub (Num a) (Num b) = Num (a - b)"
| "js_sub (Num a) PosInf = NegInf"
| "js_sub (Num a) NegInf = PosInf"
| "js_sub PosInf PosInf = NaN"
| "js_sub PosInf y = PosInf"
| "js_sub NegInf NegInf = NaN"
| "js_sub NegInf y = NegInf"

fun js_mul :: "jsnum \<Rightarrow> jsnum \<Rightarrow> jsnum" where
  "js_mul NaN y = NaN"
| "js_mul x NaN = NaN"
| "js_mul (Num a) (Num b) = Num (a * b)"
| "js_mul (Num a) PosInf = (if a = 0 then NaN else if 0 < a then PosInf else NegInf)"
| "js_mul (Num a) NegInf = (if a = 0 then NaN else if 0 < a then NegInf else PosInf)"
| "js_mul PosInf (Num b) = (if b = 0 then NaN else if 0 < b then PosInf else NegInf)"
| "js_mul NegInf (Num b) = (if b = 0 then NaN else if 0 < b then NegInf else PosInf)"
| "js_mul PosInf PosInf = PosInf"
| "js_mul PosInf NegInf = NegInf"
| "js_mul NegInf PosInf = NegInf"
| "js_mul NegInf NegInf = PosInf"

fun js_div :: "jsnum \<Rightarrow> jsnum \<Rightarrow> jsnum" where
  "js_div NaN y = NaN"
| "js_div x NaN = NaN"
| "js_div (Num a) (Num b) =
     (if b \<noteq> 0 then Num (a / b)
      else if a = 0 then NaN
      else if 0 < a then PosInf else NegInf)"
| "js_div (Num a) y = Num 0"
| "js_div PosInf (Num b) = (if 0 \<le> b then PosInf else NegInf)"
| "js_div NegInf (Num b) = (if 0 \<le> b then NegInf else PosInf)"
| "js_div x y = NaN"

fun js_lt :: "jsnum \<Rightarrow> jsnum \<Rightarrow> bool" where
  "js_lt NaN y = False"
| "js_lt x NaN = False"
| "js_lt (Num a) (Num b) = (a < b)"
| "js_lt x PosInf = (x \<noteq> PosInf)"
| "js_lt NegInf y = (y \<noteq> NegInf)"
| "js_lt x y = False"

definition js_eq :: "jsnum \<Rightarrow> jsnum \<Rightarrow> bool" where
  "js_eq x y = (x \<noteq> NaN \<and> x = y)"

fun Math_max :: "jsnum \<Rightarrow> jsnum \<Rightarrow> jsnum" where
  "Math_max NaN y = NaN"
| "Math_max x NaN = NaN"
| "Math_max PosInf y = PosInf"
| "Math_max x PosInf = PosInf"
| "Math_max NegInf y = y"
| "Math_max x NegInf = x"
| "Math_max (Num a) (Num b) = Num (max a b)"

text \<open>
  \<open>Math.pow\<close> with a finite exponent (every call site passes a literal).
  A negative base with a fractional exponent gives \<open>NaN\<close>, a zero base with a
  negative exponent gives \<open>Infinity\<close>.
\<close>

definition is_int :: "real \<Rightarrow> bool" where
  "is_int e = (e = of_int \<lfloor>e\<rfloor>)"

fun Math_pow :: "jsnum \<Rightarrow> real \<Rightarrow> jsnum" where
  "Math_pow x e =
     (if e = 0 then Num 1
      else case x of
        NaN \<Rightarrow> NaN
      | PosInf \<Rightarrow> (if 0 < e then PosInf else Num 0)
      | NegInf \<Rightarrow>
          (if 0 < e then (if is_int e \<and> odd \<lfloor>e\<rfloor> then NegInf else PosInf) else Num 0)
      | Num b \<Rightarrow>
          (if 0 < b then Num (b powr e)
           else if b = 0 then (if 0 < e then Num 0 else PosInf)
           else if is_int e
             then Num (if even \<lfloor>e\<rfloor> then (- b) powr e else - ((- b) powr e))
             else NaN))"

text \<open>\<open>x || 0\<close> on a number: \<open>NaN\<close> and zero are falsy.\<close>

definition or_zero :: "jsnum \<Rightarrow> jsnum" where
  "or_zero x = (if x = NaN \<or> x = Num 0 then Num 0 else x)"

section \<open>Host functions and the ambient clock\<close>

text \<open>
  A \<open>Date\<close> object is read through \<open>getFullYear\<close>, \<open>getMonth\<close> and
  \<open>getDate\<close> only, so it is modelled by these three fields of the local
  calendar (months count from 0); an invalid date (\<open>None\<close>) answers \<open>NaN\<close> to
  each.
\<close>

record js_date =
  fullYear :: int
  monthIndex :: int
  dayOfMonth :: int

definition getFullYear :: "js_date option \<Rightarrow> jsnum" where
  "getFullYear d = (case d of None \<Rightarrow> NaN | Some v \<Rightarrow> Num (of_int (fullYear v)))"

definition getMonth :: "js_date option \<Rightarrow> jsnum" where
  "getMonth d = (case d of None \<Rightarrow> NaN | Some v \<Rightarrow> Num (of_int (monthIndex v)))"

definition getDate :: "js_date option \<Rightarrow> jsnum" where
  "getDate d = (case d of None \<Rightarrow> NaN | Some v \<Rightarrow> Num (of_int (dayOfMonth v)))"

text \<open>
  The components call functions of the JavaScript runtime and read the system
  clock.  They are the parameters of the model: \<open>now\<close> is what \<open>new Date()\<close>
  returns at the time of the call, \<open>new_Date\<close> parses a date string,
  \<open>parseFloat\<close>, \<open>toFixed\<close> and \<open>trim\<close> are the functions of these names.
  Every theorem below holds for any behaviour of these functions.
\<close>

record js_env =
  now :: js_date
  new_Date :: "string \<Rightarrow> js_date option"
  parseFloat :: "string \<Rightarrow> jsnum"
  toFixed :: "jsnum \<Rightarrow> nat \<Rightarrow> string"
  trim :: "string \<Rightarrow> string"

section \<open>Age\<close>

text \<open>\<open>calculateAge\<close> of PatientManagement, AuditHistory and AuditResultPopup.\<close>

definition calculateAge :: "js_env \<Rightarrow> string \<Rightarrow> jsnum" where
  "calculateAge env birthDate =
     (let today = Some (now env);
          birth = new_Date env birthDate;
          age = js_sub (getFullYear today) (getFullYear birth);
          monthDiff = js_sub (getMonth today) (getMonth birth)
      in if js_lt monthDiff (Num 0) \<or>
            (js_eq monthDiff (Num 0) \<and> js_lt (getDate today) (getDate birth))
         then js_sub age (Num 1) else age)"

text \<open>The popup's copy answers 0 for an empty birth date before anything else.\<close>

definition AuditResultPopup_calculateAge :: "js_env \<Rightarrow> string \<Rightarrow> jsnum" where
  "AuditResultPopup_calculateAge env birthDate =
     (if birthDate = [] then Num 0 else calculateAge env birthDate)"

text \<open>The age expression at the head of NewAudit's \<open>calculateKidneyFunction\<close>.\<close>

definition NewAudit_age :: "js_env \<Rightarrow> string \<Rightarrow> jsnum" where
  "NewAudit_age env birthDate =
     js_sub (getFullYear (Some (now env))) (getFullYear (new_Date env birthDate))"

section \<open>Renal formulas\<close>

text \<open>The body surface area expression (DuBois and DuBois), as each caller writes it.\<close>

definition bsaValue :: "jsnum \<Rightarrow> jsnum \<Rightarrow> jsnum" where
  "bsaValue weight height =
     js_mul (js_mul (Num 0.007184) (Math_pow height 0.725)) (Math_pow weight 0.425)"

text \<open>
  The formula lines of NewAudit's \<open>calculateKidneyFunction\<close>, one definition
  for each local variable: Cockcroft-Gault, the normalisation to 1.73 square
  metres, and MDRD.
\<close>

definition NewAudit_crcl :: "jsnum \<Rightarrow> jsnum \<Rightarrow> jsnum \<Rightarrow> string \<Rightarrow> jsnum" where
  "NewAudit_crcl age weight scr gender =
     (if gender = ''male''
      then js_div (js_mul (js_sub (Num 140) age) weight) (js_mul (Num 72) scr)
      else js_div (js_mul (js_mul (js_sub (Num 140) age) weight) (Num 0.85))
                  (js_mul (Num 72) scr))"

definition NewAudit_crclNormalized :: "jsnum \<Rightarrow> jsnum \<Rightarrow> jsnum" where
  "NewAudit_crclNormalized crcl bsa = js_div (js_mul crcl (Num 1.73)) bsa"

definition NewAudit_egfr :: "jsnum \<Rightarrow> jsnum \<Rightarrow> string \<Rightarrow> jsnum" where
  "NewAudit_egfr scr age gender =
     (if gender = ''male''
      then js_mul (js_mul (Num 175) (Math_pow scr (- 1.154))) (Math_pow age (- 0.203))
      else js_mul (js_mul (js_mul (Num 175) (Math_pow scr (- 1.154)))
                          (Math_pow age (- 0.203))) (Num 0.742))"

record kidneyFunction =
  kf_egfr :: jsnum
  kf_crcl :: jsnum
  kf_crclNormalized :: jsnum

definition NewAudit_calculateKidneyFunction ::
  "js_env \<Rightarrow> jsnum \<Rightarrow> jsnum \<Rightarrow> jsnum \<Rightarrow> string \<Rightarrow> string \<Rightarrow> kidneyFunction" where
  "NewAudit_calculateKidneyFunction env scr weight height gender birthDate =
     (let age = NewAudit_age env birthDate;
          crcl = NewAudit_crcl age weight scr gender;
          bsa = bsaValue weight height;
          crclNormalized = NewAudit_crclNormalized crcl bsa;
          egfr = NewAudit_egfr scr age gender
      in \<lparr> kf_egfr = Math_max egfr (Num 0),
           kf_crcl = Math_max crcl (Num 0),
           kf_crclNormalized = Math_max crclNormalized (Num 0) \<rparr>)"

text \<open>The same lines of PatientManagement's copy, which returns formatted texts.\<close>

definition PatientManagement_crcl :: "jsnum \<Rightarrow> jsnum \<Rightarrow> jsnum \<Rightarrow> string \<Rightarrow> jsnum" where
  "PatientManagement_crcl age weight scr gender =
     (let crcl = js_div (js_mul (js_sub (Num 140) age) weight) (js_mul (Num 72) scr)
      in if gender = ''female'' then js_mul crcl (Num 0.85) else crcl)"

definition PatientManagement_crclNormalized :: "jsnum \<Rightarrow> jsnum \<Rightarrow> jsnum" where
  "PatientManagement_crclNormalized crcl bsa = js_mul crcl (js_div (Num 1.73) bsa)"

definition PatientManagement_egfr :: "jsnum \<Rightarrow> jsnum \<Rightarrow> string \<Rightarrow> jsnum" where
  "PatientManagement_egfr scr age gender =
     (let egfr = js_mul (js_mul (Num 175) (Math_pow scr (- 1.154))) (Math_pow age (- 0.203))
      in if gender = ''female'' then js_mul egfr (Num 0.742) else egfr)"

record kidneyFunctionText =
  kt_crcl :: string
  kt_crclNormalized :: string
  kt_egfr :: string
  kt_bsa :: string

definition PatientManagement_calculateKidneyFunction ::
  "js_env \<Rightarrow> jsnum \<Rightarrow> jsnum \<Rightarrow> jsnum \<Rightarrow> string \<Rightarrow> string \<Rightarrow> kidneyFunctionText" where
  "PatientManagement_calculateKidneyFunction env scr weight height gender birthDate =
     (let age = calculateAge env birthDate;
          crcl = PatientManagement_crcl age weight scr gender;
          bsa = bsaValue weight height;
          crclNormalized = PatientManagement_crclNormalized crcl bsa;
          egfr = PatientManagement_egfr scr age gender
      in \<lparr> kt_crcl = toFixed env crcl 1,
           kt_crclNormalized = toFixed env crclNormalized 1,
           kt_egfr = toFixed env egfr 1,
           kt_bsa = toFixed env bsa 3 \<rparr>)"

section \<open>The audit form of NewAudit\<close>

record patientInfo =
  name :: string
  gender :: string
  birthDate :: string
  weight :: string
  height :: string
  scr :: string
  crcl :: string
  crclNormalized :: string
  egfr :: string
  bsa :: string
  isOnDialysis :: bool

text \<open>
  A change event of the form: a text, number, date or select input named after a
  field, or the dialysis checkbox (the one checkbox of the form).
\<close>

datatype field = F_name | F_gender | F_birthDate | F_weight | F_height | F_scr
  | F_crcl | F_crclNormalized | F_egfr | F_bsa

datatype change = Input field string | Checkbox bool

fun set_field :: "field \<Rightarrow> string \<Rightarrow> patientInfo \<Rightarrow> patientInfo" where
  "set_field F_name v p = p\<lparr>name := v\<rparr>"
| "set_field F_gender v p = p\<lparr>gender := v\<rparr>"
| "set_field F_birthDate v p = p\<lparr>birthDate := v\<rparr>"
| "set_field F_weight v p = p\<lparr>weight := v\<rparr>"
| "set_field F_height v p = p\<lparr>height := v\<rparr>"
| "set_field F_scr v p = p\<lparr>scr := v\<rparr>"
| "set_field F_crcl v p = p\<lparr>crcl := v\<rparr>"
| "set_field F_crclNormalized v p = p\<lparr>crclNormalized := v\<rparr>"
| "set_field F_egfr v p = p\<lparr>egfr := v\<rparr>"
| "set_field F_bsa v p = p\<lparr>bsa := v\<rparr>"

fun apply_change :: "change \<Rightarrow> patientInfo \<Rightarrow> patientInfo" where
  "apply_change (Input f v) p = set_field f v p"
| "apply_change (Checkbox b) p = p\<lparr>isOnDialysis := b\<rparr>"

text \<open>The text put into the BSA field: blank unless weight and height both parse.\<close>

definition bsaText :: "js_env \<Rightarrow> string \<Rightarrow> string \<Rightarrow> string" where
  "bsaText env w h =
     (let weight = parseFloat env w; height = parseFloat env h
      in if \<not> isNaN weight \<and> \<not> isNaN height
         then toFixed env (bsaValue weight height) 3 else [])"

definition handlePatientInfoChange :: "js_env \<Rightarrow> change \<Rightarrow> patientInfo \<Rightarrow> patientInfo" where
  "handlePatientInfoChange env e prev =
     (let updatedInfo = apply_change e prev;
          weight = parseFloat env (patientInfo.weight updatedInfo);
          height = parseFloat env (patientInfo.height updatedInfo);
          bsa = bsaText env (patientInfo.weight updatedInfo) (patientInfo.height updatedInfo);
          scr = parseFloat env (patientInfo.scr updatedInfo);
          gender = patientInfo.gender updatedInfo;
          birthDate = patientInfo.birthDate updatedInfo;
          isOnDialysis = patientInfo.isOnDialysis updatedInfo
      in if \<not> isNaN scr \<and> \<not> isNaN weight \<and> \<not> isNaN height \<and> gender \<noteq> [] \<and>
            birthDate \<noteq> [] \<and> \<not> isOnDialysis
         then (let k = NewAudit_calculateKidneyFunction env scr weight height gender birthDate
               in updatedInfo\<lparr>bsa := bsa,
                    egfr := toFixed env (kf_egfr k) 2,
                    crcl := toFixed env (kf_crcl k) 2,
                    crclNormalized := toFixed env (kf_crclNormalized k) 2\<rparr>)
         else if isOnDialysis
         then updatedInfo\<lparr>bsa := bsa, egfr := [], crcl := [], crclNormalized := []\<rparr>
         else updatedInfo\<lparr>bsa := bsa\<rparr>)"

subsection \<open>Submitting the audit\<close>

record medicationInfo =
  med_id :: string
  productName :: string
  ingredientName :: string
  dosage :: string
  frequency :: string
  duration :: string
  unit :: string

record patientData =
  pd_name :: "string option"
  pd_sex :: string
  pd_birth_date :: string
  pd_weight_kg :: jsnum
  pd_height_cm :: jsnum
  pd_scr_mg_dl :: jsnum
  pd_egfr :: jsnum
  pd_crcl :: jsnum
  pd_crcl_normalized :: jsnum
  pd_bsa :: jsnum
  pd_is_hd :: bool

text \<open>The two alerts that end \<open>handleAuditExecution\<close> before anything is sent.\<close>

datatype alert = PatientInfoIncomplete | NoCompleteMedication

definition validMedications :: "js_env \<Rightarrow> medicationInfo list \<Rightarrow> medicationInfo list" where
  "validMedications env medications =
     filter (\<lambda>med. trim env (productName med) \<noteq> [] \<and> trim env (dosage med) \<noteq> [] \<and>
                    trim env (frequency med) \<noteq> [] \<and> trim env (duration med) \<noteq> [])
       medications"

text \<open>
  \<open>handleAuditExecution\<close> up to the body of its first request, the patient
  record posted to the server.
\<close>

definition handleAuditExecution ::
  "js_env \<Rightarrow> patientInfo \<Rightarrow> medicationInfo list \<Rightarrow> alert + patientData" where
  "handleAuditExecution env p medications =
     (if gender p = [] \<or> birthDate p = [] \<or> weight p = [] \<or> height p = []
      then Inl PatientInfoIncomplete
      else if \<not> isOnDialysis p \<and> (scr p = [] \<or> egfr p = [] \<or> crcl p = [])
      then Inl PatientInfoIncomplete
      else if validMedications env medications = []
      then Inl NoCompleteMedication
      else Inr \<lparr> pd_name = (if name p = [] then None else Some (name p)),
                 pd_sex = (if gender p = ''male'' then ''M'' else ''F''),
                 pd_birth_date = birthDate p,
                 pd_weight_kg = parseFloat env (weight p),
                 pd_height_cm = parseFloat env (height p),
                 pd_scr_mg_dl = (if isOnDialysis p then Num 10.0 else parseFloat env (scr p)),
                 pd_egfr = or_zero (parseFloat env (egfr p)),
                 pd_crcl = or_zero (parseFloat env (crcl p)),
                 pd_crcl_normalized = or_zero (parseFloat env (crclNormalized p)),
                 pd_bsa = or_zero (parseFloat env (bsa p)),
                 pd_is_hd = isOnDialysis p \<rparr>)"

section \<open>Showing a stored patient (PrescriptionInput)\<close>

text \<open>
  String literals outside ASCII are given by their UTF-8 bytes.  This one is the
  dialysis marker, the Korean for "on dialysis".
\<close>

definition s_dialysis :: string where
  "s_dialysis = [CHR 0xED, CHR 0x88, CHR 0xAC, CHR 0xEC, CHR 0x84, CHR 0x9D, CHR 0x20,
                 CHR 0xEC, CHR 0xA4, CHR 0x91]"

record measurement =
  m_weight_kg :: "jsnum option"
  m_height_cm :: "jsnum option"
  m_scr_mg_dl :: "jsnum option"
  m_egfr :: "jsnum option"
  m_crcl :: "jsnum option"
  m_crcl_normalized :: "jsnum option"
  m_bsa :: "jsnum option"
  m_is_hd :: bool

record patientInfoResponse =
  pr_name :: string
  pr_sex :: string
  pr_birth_date :: string
  latest_measurement :: "measurement option"

text \<open>
  \<open>m?.f?.toString() || '-'\<close>: the number's text, or a dash when the measurement
  or the value is missing (or the text is empty).  \<open>toString\<close> of a number is
  a parameter, like the host functions above.
\<close>

definition text_or_dash ::
  "(jsnum \<Rightarrow> string) \<Rightarrow> measurement option \<Rightarrow> (measurement \<Rightarrow> jsnum option) \<Rightarrow> string" where
  "text_or_dash toString m f =
     (case m of None \<Rightarrow> ''-''
      | Some v \<Rightarrow> (case f v of None \<Rightarrow> ''-''
                   | Some x \<Rightarrow> (if toString x = [] then ''-'' else toString x)))"

definition is_hd_of :: "measurement option \<Rightarrow> bool" where
  "is_hd_of m = (case m of None \<Rightarrow> False | Some v \<Rightarrow> m_is_hd v)"

definition PrescriptionInput_patientInfo ::
  "(jsnum \<Rightarrow> string) \<Rightarrow> patientInfoResponse \<Rightarrow> patientInfo" where
  "PrescriptionInput_patientInfo toString selectedPatient =
     (let m = latest_measurement selectedPatient
      in \<lparr> name = pr_name selectedPatient,
           gender = (if pr_sex selectedPatient = ''M'' then ''male'' else ''female''),
           birthDate = pr_birth_date selectedPatient,
           weight = text_or_dash toString m m_weight_kg,
           height = text_or_dash toString m m_height_cm,
           scr = (if is_hd_of m then s_dialysis else text_or_dash toString m m_scr_mg_dl),
           crcl = (if is_hd_of m then s_dialysis else text_or_dash toString m m_crcl),
           crclNormalized =
             (if is_hd_of m then s_dialysis else text_or_dash toString m m_crcl_normalized),
           egfr = (if is_hd_of m then s_dialysis else text_or_dash toString m m_egfr),
           bsa = text_or_dash toString m m_bsa,
           isOnDialysis = is_hd_of m \<rparr>)"

section \<open>The summary of an order\<close>

definition s_pending :: string where
  "s_pending = [CHR 0xEB, CHR 0x8C, CHR 0x80, CHR 0xEA, CHR 0xB8, CHR 0xB0,
                CHR 0xEC, CHR 0xA4, CHR 0x91]"

definition s_abnormal :: string where
  "s_abnormal = [CHR 0xEC, CHR 0x9D, CHR 0xB4, CHR 0xEC, CHR 0x83, CHR 0x81]"

definition s_normal :: string where
  "s_normal = [CHR 0xEC, CHR 0xA0, CHR 0x95, CHR 0xEC, CHR 0x83, CHR 0x81]"

definition s_contraindicated :: string where
  "s_contraindicated = [CHR 0xEA, CHR 0xB8, CHR 0x88, CHR 0xEA, CHR 0xB8, CHR 0xB0]"

definition t_issues :: string where
  "t_issues = [CHR 0xE2, CHR 0x9A, CHR 0xA0, CHR 0xEF, CHR 0xB8, CHR 0x8F, CHR 0x20,
               CHR 0xEC, CHR 0xB2, CHR 0x98, CHR 0xEB, CHR 0xB0, CHR 0xA9, CHR 0x20,
               CHR 0xEC, CHR 0x9D, CHR 0xB4, CHR 0xEC, CHR 0x83, CHR 0x81, CHR 0x20,
               CHR 0xEC, CHR 0x82, CHR 0xAC, CHR 0xED, CHR 0x95, CHR 0xAD]"

definition t_result :: string where
  "t_result = [CHR 0xE2, CHR 0x9C, CHR 0x85, CHR 0x20, CHR 0xEC, CHR 0xB2, CHR 0x98,
               CHR 0xEB, CHR 0xB0, CHR 0xA9, CHR 0x20, CHR 0xEA, CHR 0xB0, CHR 0x90,
               CHR 0xEC, CHR 0x82, CHR 0xAC, CHR 0x20, CHR 0xEA, CHR 0xB2, CHR 0xB0,
               CHR 0xEA, CHR 0xB3, CHR 0xBC]"

record prescription =
  rx_id :: int
  drug_name :: string
  audit_result :: string
  information :: "string option"

text \<open>
  \<open>getStatusBadge\<close> of AuditHistory: the class and the text of the badge shown
  for an order, computed from the lines of the order.
\<close>

definition getStatusBadge :: "prescription list \<Rightarrow> string \<times> string" where
  "getStatusBadge prescriptions =
     (let hasAbnormal =
            list_ex (\<lambda>p. audit_result p \<noteq> ''-'' \<and> audit_result p \<noteq> s_pending) prescriptions;
          hasPending = list_ex (\<lambda>p. audit_result p = s_pending) prescriptions
      in if hasPending then (''status-badge pending'', s_pending)
         else if hasAbnormal then (''status-badge failed'', s_abnormal)
         else (''status-badge completed'', s_normal))"

text \<open>\<open>getPopupTitle\<close> of AuditResultPopup, and the count its section title shows.\<close>

definition hasIssues :: "prescription list \<Rightarrow> bool" where
  "hasIssues prescriptions =
     list_ex (\<lambda>p. audit_result p \<noteq> ''-'' \<and> audit_result p \<noteq> s_normal) prescriptions"

definition issueCount :: "prescription list \<Rightarrow> nat" where
  "issueCount prescriptions =
     length (filter (\<lambda>p. audit_result p \<noteq> ''-'' \<and> audit_result p \<noteq> s_normal) prescriptions)"

definition getPopupTitle :: "prescription list \<Rightarrow> string" where
  "getPopupTitle prescriptions = (if hasIssues prescriptions then t_issues else t_result)"

text \<open>
  What the two submission screens show once the server has answered.  They do
  not look at the lines to decide: they read the note stored with the order.
  NewAudit shows a toast for the note "normal", the popup for the note
  "abnormal" and a summary alert otherwise; PrescriptionInput shows a toast for
  the note "normal" and the popup otherwise (with the lines of the answer, or
  with placeholder lines when the answer has none).
\<close>

datatype result_view =
    Toast
  | Popup "prescription list"
  | PopupFallback
  | SummaryAlert
  | FailureAlert

definition NewAudit_showResult :: "string option \<Rightarrow> prescription list \<Rightarrow> result_view" where
  "NewAudit_showResult note prescriptions =
     (if note = Some s_normal then Toast
      else if note = Some s_abnormal then Popup prescriptions
      else SummaryAlert)"

definition PrescriptionInput_showResult ::
  "bool \<Rightarrow> string option \<Rightarrow> prescription list \<Rightarrow> result_view" where
  "PrescriptionInput_showResult success note prescriptions =
     (if success
      then (if note = Some s_normal then Toast
            else if prescriptions \<noteq> [] then Popup prescriptions
            else PopupFallback)
      else FailureAlert)"

section \<open>The dose rule evaluator\<close>

text \<open>
  The evaluator runs on the server, whose code is not part of the sources at
  hand: the client only receives its verdict (\<open>audit_result\<close>).  The
  definitions of this section follow the specification of the evaluator.
\<close>

text \<open>
  Modelled from the spec: the categories of an audit outcome (the server's
  evaluator is missing).
\<close>

datatype category = Contraindicated | DoseAdjustmentNeeded | IntervalAdjustmentNeeded | Normal

text \<open>
  Modelled from the spec: the severity ordering of the categories (the server's
  evaluator is missing), Contraindicated over IntervalAdjustmentNeeded over
  DoseAdjustmentNeeded over Normal.
\<close>

fun severity :: "category \<Rightarrow> nat" where
  "severity Contraindicated = 3"
| "severity IntervalAdjustmentNeeded = 2"
| "severity DoseAdjustmentNeeded = 1"
| "severity Normal = 0"

text \<open>
  Modelled from the spec: the metric a constraint tests (the rule table is
  missing).
\<close>

datatype metric = CrCl | CrClNormalized | EGFR

text \<open>
  Modelled from the spec: a constraint of the rule table (the table and its
  lookup are missing).  The range is a lower bound, included, and an upper
  bound, excluded, either of which may be absent: "CrCl below 30" has the upper
  bound 30 only, "CrCl 30 to 60" has both.
\<close>

record rule =
  r_metric :: metric
  r_lower :: "real option"
  r_upper :: "real option"
  r_category :: category
  r_rationaleTemplate :: string
  r_isDialysisRule :: bool

text \<open>
  Modelled from the spec: the renal metrics handed to the evaluator (the
  server's record is missing); the creatinine-derived metrics are absent for a
  patient on dialysis.
\<close>

record renalMetrics =
  ageYears :: int
  bodySurfaceAreaM2 :: real
  creatinineClearanceMlMin :: "real option"
  creatinineClearanceNormalizedMlMin173m2 :: "real option"
  egfrMlMin173m2 :: "real option"

text \<open>
  Modelled from the spec: the rationale of an outcome (the server's evaluator
  is missing), kept structured: no constraint on record, metric unavailable,
  within the normal range, or the template of the rule applied together with
  the metric value that goes into it.
\<close>

datatype rationale =
    NoConstraintOnRecord
  | MetricUnavailable
  | WithinNormalRange
  | FromRule string "real option"

text \<open>
  Modelled from the spec: the audit outcome of a line, category and rationale
  (the server's record is missing).
\<close>

record auditOutcome =
  oc_category :: category
  oc_rationale :: rationale

text \<open>
  Modelled from the spec: the value of the metric a constraint tests, absent
  when not applicable (the server's evaluator is missing).
\<close>

definition metric_value :: "renalMetrics \<Rightarrow> metric \<Rightarrow> real option" where
  "metric_value m k =
     (case k of CrCl \<Rightarrow> creatinineClearanceMlMin m
      | CrClNormalized \<Rightarrow> creatinineClearanceNormalizedMlMin173m2 m
      | EGFR \<Rightarrow> egfrMlMin173m2 m)"

text \<open>
  Modelled from the spec: membership in the range of a constraint (the
  server's evaluator is missing).
\<close>

definition in_range :: "rule \<Rightarrow> real \<Rightarrow> bool" where
  "in_range r v =
     ((case r_lower r of None \<Rightarrow> True | Some l \<Rightarrow> l \<le> v) \<and>
      (case r_upper r of None \<Rightarrow> True | Some u \<Rightarrow> v < u))"

text \<open>
  Modelled from the spec: a numeric constraint matches when the metric it tests
  is available and falls in its range (the server's matching is missing).
\<close>

definition matches :: "renalMetrics \<Rightarrow> rule \<Rightarrow> bool" where
  "matches m r =
     (\<not> r_isDialysisRule r \<and>
      (case metric_value m (r_metric r) of None \<Rightarrow> False | Some v \<Rightarrow> in_range r v))"

text \<open>
  Modelled from the spec: the most severe of a list of rules, the earliest one
  among equally severe ones (the server's tie-break is missing).
\<close>

fun most_severe :: "rule \<Rightarrow> rule list \<Rightarrow> rule" where
  "most_severe r [] = r"
| "most_severe r (x # xs) =
     (if severity (r_category r) < severity (r_category x)
      then most_severe x xs else most_severe r xs)"

text \<open>
  Modelled from the spec: the outcome a rule yields, its category and its
  template with the metric value (the server's evaluator is missing).
\<close>

definition outcome_of :: "renalMetrics \<Rightarrow> rule \<Rightarrow> auditOutcome" where
  "outcome_of m r =
     \<lparr> oc_category = r_category r,
       oc_rationale = FromRule (r_rationaleTemplate r)
         (if r_isDialysisRule r then None else metric_value m (r_metric r)) \<rparr>"

text \<open>
  Modelled from the spec: the algorithm of the DoseRuleEvaluator, steps 1 to 5
  (the server's evaluator is missing).  \<open>rules\<close> is the answer of the rule
  table for the drug of the line, \<open>None\<close> when the drug is not found.
\<close>

definition evaluate :: "rule list option \<Rightarrow> bool \<Rightarrow> renalMetrics \<Rightarrow> auditOutcome" where
  "evaluate rules onDialysis m =
     (case rules of
        None \<Rightarrow> \<lparr> oc_category = Normal, oc_rationale = NoConstraintOnRecord \<rparr>
      | Some [] \<Rightarrow> \<lparr> oc_category = Normal, oc_rationale = NoConstraintOnRecord \<rparr>
      | Some rs \<Rightarrow>
          (case (if onDialysis then filter r_isDialysisRule rs else []) of
             d # ds \<Rightarrow> outcome_of m d
           | [] \<Rightarrow>
               (case filter (matches m) rs of
                  x # xs \<Rightarrow> outcome_of m (most_severe x xs)
                | [] \<Rightarrow>
                    (if list_ex (\<lambda>r. \<not> r_isDialysisRule r \<and> metric_value m (r_metric r) = None) rs
                     then \<lparr> oc_category = Normal, oc_rationale = MetricUnavailable \<rparr>
                     else \<lparr> oc_category = Normal, oc_rationale = WithinNormalRange \<rparr>))))"

text \<open>
  Modelled from the spec: the two rules of its severity example (the rule table
  is missing), contraindicated below a CrCl of 30 and dose adjustment below 60,
  and a patient with a CrCl of 20.
\<close>

definition rule_contraindicated_below_30 :: rule where
  "rule_contraindicated_below_30 =
     \<lparr> r_metric = CrCl, r_lower = None, r_upper = Some 30, r_category = Contraindicated,
       r_rationaleTemplate = ''contraindicated'', r_isDialysisRule = False \<rparr>"

definition rule_dose_adjustment_below_60 :: rule where
  "rule_dose_adjustment_below_60 =
     \<lparr> r_metric = CrCl, r_lower = None, r_upper = Some 60, r_category = DoseAdjustmentNeeded,
       r_rationaleTemplate = ''adjust the dose'', r_isDialysisRule = False \<rparr>"

definition metrics_crcl_20 :: renalMetrics where
  "metrics_crcl_20 =
     \<lparr> ageYears = 45, bodySurfaceAreaM2 = 1.85, creatinineClearanceMlMin = Some 20,
       creatinineClearanceNormalizedMlMin173m2 = Some 19, egfrMlMin173m2 = Some 25 \<rparr>"

section \<open>An environment for the examples\<close>

text \<open>
  The examples below are evaluated in a fixed environment: the clock reads
  15 June 2025, and the host functions answer as JavaScript does on the strings
  and numbers of the examples (dates as read in a time zone at or east of UTC,
  where the local day of a date string is the day it names).  \<open>parseFloat\<close>, \<open>new Date\<close> and \<open>toString\<close>
  are only given on these; \<open>toFixed\<close> rounds half up and is only given for
  finite numbers below \<open>10^21\<close> and for the special values; \<open>trim\<close> strips
  spaces.
\<close>

fun decimal :: "nat \<Rightarrow> string" where
  "decimal n =
     (if n < 10 then [''0123456789'' ! n]
      else decimal (n div 10) @ [''0123456789'' ! (n mod 10)])"

definition fixed_text :: "real \<Rightarrow> nat \<Rightarrow> string" where
  "fixed_text x d =
     (let s = decimal (nat \<lfloor>x * 10 ^ d + 1 / 2\<rfloor>);
          t = replicate (Suc d - length s) (CHR ''0'') @ s
      in if d = 0 then t else take (length t - d) t @ ''.'' @ drop (length t - d) t)"

definition example_toFixed :: "jsnum \<Rightarrow> nat \<Rightarrow> string" where
  "example_toFixed x d =
     (case x of NaN \<Rightarrow> ''NaN'' | PosInf \<Rightarrow> ''Infinity'' | NegInf \<Rightarrow> ''-Infinity''
      | Num r \<Rightarrow> (if 10 ^ 21 \<le> \<bar>r\<bar> then undefined
                  else if r < 0 then ''-'' @ fixed_text (- r) d else fixed_text r d))"

definition example_parseFloat :: "string \<Rightarrow> jsnum" where
  "example_parseFloat s =
     (if s = [] then NaN
      else if s = ''0'' then Num 0
      else if s = ''1.0'' then Num 1
      else if s = ''70'' then Num 70
      else if s = ''175'' then Num 175
      else undefined)"

definition example_new_Date :: "string \<Rightarrow> js_date option" where
  "example_new_Date s =
     (if s = [] then None
      else if s = ''1880-01-01'' then Some \<lparr>fullYear = 1880, monthIndex = 0, dayOfMonth = 1\<rparr>
      else if s = ''1980-06-15'' then Some \<lparr>fullYear = 1980, monthIndex = 5, dayOfMonth = 15\<rparr>
      else if s = ''1980-12-31'' then Some \<lparr>fullYear = 1980, monthIndex = 11, dayOfMonth = 31\<rparr>
      else undefined)"

definition example_toString :: "jsnum \<Rightarrow> string" where
  "example_toString x =
     (if x = Num 0 then ''0''
      else if x = Num 10 then ''10''
      else if x = Num 70 then ''70''
      else if x = Num 175 then ''175''
      else if x = Num 1.848 then ''1.848''
      else undefined)"

definition example_trim :: "string \<Rightarrow> string" where
  "example_trim s =
     rev (dropWhile (\<lambda>c. c = CHR '' '') (rev (dropWhile (\<lambda>c. c = CHR '' '') s)))"

definition example_env :: js_env where
  "example_env =
     \<lparr> now = \<lparr>fullYear = 2025, monthIndex = 5, dayOfMonth = 15\<rparr>,
       new_Date = example_new_Date,
       parseFloat = example_parseFloat,
       toFixed = example_toFixed,
       trim = example_trim \<rparr>"

text \<open>The same environment a year later.\<close>

definition example_env_2026 :: js_env where
  "example_env_2026 = example_env\<lparr>now := \<lparr>fullYear = 2026, monthIndex = 5, dayOfMonth = 15\<rparr>\<rparr>"

text \<open>
  The form of the examples: a man of 70 kg and 175 cm on dialysis, and the same
  man off dialysis with a creatinine of 1.0.
\<close>

definition example_patient :: patientInfo where
  "example_patient =
     \<lparr> name = [], gender = ''male'', birthDate = ''1980-06-15'', weight = ''70'',
       height = ''175'', scr = [], crcl = [], crclNormalized = [], egfr = [], bsa = [],
       isOnDialysis = True \<rparr>"

definition example_patient_no_dialysis :: patientInfo where
  "example_patient_no_dialysis = example_patient\<lparr>scr := ''1.0'', isOnDialysis := False\<rparr>"

definition example_medication :: medicationInfo where
  "example_medication =
     \<lparr> med_id = ''1'', productName = ''aspirin'', ingredientName = [], dosage = ''1'',
       frequency = ''3'', duration = ''7'', unit = [] \<rparr>"

section \<open>Dialysis\<close>

text \<open>
  C10.  Whenever \<open>handleAuditExecution\<close> posts a patient record, the record
  carries the serum creatinine 10.0 if the dialysis flag is set, and the number
  parsed from the creatinine field otherwise; the flag itself is passed on.
\<close>

theorem dialysis_sentinel_creatinine:
  assumes "handleAuditExecution env p medications = Inr d"
  shows "pd_scr_mg_dl d = (if isOnDialysis p then Num 10 else parseFloat env (scr p)) \<and>
         pd_is_hd d = isOnDialysis p"
  using assms by (auto simp: handleAuditExecution_def split: if_splits)

theorem dialysis_sentinel_creatinine_witness:
  "handleAuditExecution example_env example_patient [example_medication] =
     Inr \<lparr> pd_name = None, pd_sex = ''M'', pd_birth_date = ''1980-06-15'',
           pd_weight_kg = Num 70, pd_height_cm = Num 175, pd_scr_mg_dl = Num 10,
           pd_egfr = Num 0, pd_crcl = Num 0, pd_crcl_normalized = Num 0, pd_bsa = Num 0,
           pd_is_hd = True \<rparr> \<and>
   pd_scr_mg_dl \<lparr> pd_name = None, pd_sex = ''M'', pd_birth_date = ''1980-06-15'',
           pd_weight_kg = Num 70, pd_height_cm = Num 175, pd_scr_mg_dl = Num 10,
           pd_egfr = Num 0, pd_crcl = Num 0, pd_crcl_normalized = Num 0, pd_bsa = Num 0,
           pd_is_hd = True \<rparr> =
     (if isOnDialysis example_patient then Num 10
      else parseFloat example_env (scr example_patient))"
proof -
  have d: "handleAuditExecution example_env example_patient [example_medication] =
     Inr \<lparr> pd_name = None, pd_sex = ''M'', pd_birth_date = ''1980-06-15'',
           pd_weight_kg = Num 70, pd_height_cm = Num 175, pd_scr_mg_dl = Num 10,
           pd_egfr = Num 0, pd_crcl = Num 0, pd_crcl_normalized = Num 0, pd_bsa = Num 0,
           pd_is_hd = True \<rparr>"
    by (simp add: handleAuditExecution_def example_patient_def example_medication_def
        validMedications_def example_env_def example_trim_def example_parseFloat_def
        or_zero_def)
  from d dialysis_sentinel_creatinine [OF d] show ?thesis by blast
qed

section \<open>Age\<close>

text \<open>
  \<open>calculateAge\<close> on a birth date that parses: the difference of the years,
  less one when the month and day of today come before those of the birth date.
\<close>

lemma calculateAge_valid:
  assumes "new_Date env bd = Some b"
  shows "calculateAge env bd =
     Num (of_int (fullYear (now env) - fullYear b -
        (if monthIndex (now env) < monthIndex b \<or>
            (monthIndex (now env) = monthIndex b \<and> dayOfMonth (now env) < dayOfMonth b)
         then 1 else 0)))"
  using assms
  by (simp add: calculateAge_def Let_def getFullYear_def getMonth_def getDate_def js_eq_def)

lemma NewAudit_age_valid:
  assumes "new_Date env bd = Some b"
  shows "NewAudit_age env bd = Num (of_int (fullYear (now env) - fullYear b))"
  using assms by (simp add: NewAudit_age_def getFullYear_def)

lemma NewAudit_age_1980: "NewAudit_age example_env ''1980-06-15'' = Num 45"
  by (simp add: NewAudit_age_def getFullYear_def example_env_def example_new_Date_def)

lemma NewAudit_age_1880: "NewAudit_age example_env ''1880-01-01'' = Num 145"
  by (simp add: NewAudit_age_def getFullYear_def example_env_def example_new_Date_def)

lemma toFixed_example_env: "toFixed example_env = example_toFixed"
  by (simp add: example_env_def)

text \<open>
  C3.  On 15 June 2025 a patient born on 31 December 1980 is 44: \<open>calculateAge\<close>
  (PatientManagement, AuditHistory, AuditResultPopup) takes one year off, as
  the birthday of the year is still to come.  The age NewAudit feeds to its
  renal formulas is the plain difference of the years, 45.
\<close>

theorem NewAudit_age_ignores_month_and_day:
  "calculateAge example_env ''1980-12-31'' = Num 44 \<and>
   AuditResultPopup_calculateAge example_env ''1980-12-31'' = Num 44 \<and>
   NewAudit_age example_env ''1980-12-31'' = Num 45"
  by (simp add: NewAudit_age_def AuditResultPopup_calculateAge_def calculateAge_def Let_def
      getFullYear_def getMonth_def getDate_def js_eq_def example_env_def example_new_Date_def)

section \<open>Body surface area\<close>

lemma powr_product_pow40:
  "((175::real) powr 0.725 * 70 powr 0.425) ^ 40 = 175 ^ 29 * 70 ^ 17"
proof -
  have a: "((175::real) powr 0.725) ^ 40 = 175 ^ 29"
  proof -
    have "((175::real) powr 0.725) ^ 40 = 175 powr (0.725 * 40)"
      by (simp add: powr_powr flip: powr_realpow)
    also have "\<dots> = 175 powr (of_nat 29)" by simp
    also have "\<dots> = 175 ^ 29" by (simp add: powr_realpow)
    finally show ?thesis .
  qed
  have b: "((70::real) powr 0.425) ^ 40 = 70 ^ 17"
  proof -
    have "((70::real) powr 0.425) ^ 40 = 70 powr (0.425 * 40)"
      by (simp add: powr_powr flip: powr_realpow)
    also have "\<dots> = 70 powr (of_nat 17)" by simp
    also have "\<dots> = 70 ^ 17" by (simp add: powr_realpow)
    finally show ?thesis .
  qed
  show ?thesis by (simp only: power_mult_distrib a b)
qed

lemma powr_product_bounds:
  "256 \<le> (175::real) powr 0.725 * 70 powr 0.425"
  "(175::real) powr 0.725 * 70 powr 0.425 \<le> 258"
proof -
  let ?P = "(175::real) powr 0.725 * 70 powr 0.425"
  have pos: "0 \<le> ?P" by simp
  have lo: "(256::real) ^ 40 \<le> ?P ^ 40" unfolding powr_product_pow40 by simp
  show "256 \<le> ?P"
  proof (rule ccontr)
    assume "\<not> 256 \<le> ?P"
    then have "?P < 256" by simp
    then have "?P ^ 40 < 256 ^ 40" using pos by (intro power_strict_mono) simp_all
    with lo show False by simp
  qed
  have hi: "?P ^ 40 \<le> (258::real) ^ 40" unfolding powr_product_pow40 by simp
  show "?P \<le> 258"
  proof (rule ccontr)
    assume "\<not> ?P \<le> 258"
    then have "258 < ?P" by simp
    then have "(258::real) ^ 40 < ?P ^ 40" by (intro power_strict_mono) simp_all
    with hi show False by simp
  qed
qed

lemma bsa_window:
  "256 \<le> P \<Longrightarrow> P \<le> 258 \<Longrightarrow> \<bar>0.007184 * P - 1.847\<bar> \<le> (0.01::real)"
  unfolding abs_le_iff by auto

lemma bsaValue_70_175:
  "\<exists>v. bsaValue (Num 70) (Num 175) = Num v \<and> \<bar>v - 1.847\<bar> \<le> 0.01"
proof -
  have "bsaValue (Num 70) (Num 175) = Num (0.007184 * (175 powr 0.725 * 70 powr 0.425))"
    by (simp add: bsaValue_def)
  moreover have "\<bar>0.007184 * ((175::real) powr 0.725 * 70 powr 0.425) - 1.847\<bar> \<le> 0.01"
    using powr_product_bounds by (rule bsa_window)
  ultimately show ?thesis by blast
qed

text \<open>
  C7.  For a positive weight and height the body surface area is
  \<open>0.007184 * height^0.725 * weight^0.425\<close>, and this is the number formatted
  into the BSA field of the form; for 70 kg and 175 cm it lies within 0.01 of
  1.847.
\<close>

theorem body_surface_area_DuBois:
  assumes "0 < w" and "0 < h"
  shows "bsaValue (Num w) (Num h) = Num (0.007184 * h powr 0.725 * w powr 0.425) \<and>
         (parseFloat env ws = Num w \<and> parseFloat env hs = Num h \<longrightarrow>
            bsaText env ws hs = toFixed env (Num (0.007184 * h powr 0.725 * w powr 0.425)) 3) \<and>
         (\<exists>v. bsaValue (Num 70) (Num 175) = Num v \<and> \<bar>v - 1.847\<bar> \<le> 0.01)"
proof -
  have f: "bsaValue (Num w) (Num h) = Num (0.007184 * h powr 0.725 * w powr 0.425)"
    using assms by (simp add: bsaValue_def)
  have t: "parseFloat env ws = Num w \<and> parseFloat env hs = Num h \<longrightarrow>
      bsaText env ws hs = toFixed env (Num (0.007184 * h powr 0.725 * w powr 0.425)) 3"
    by (simp add: bsaText_def Let_def isNaN_def f)
  from f t bsaValue_70_175 show ?thesis by blast
qed

theorem body_surface_area_DuBois_witness:
  "(0::real) < 70 \<and> (0::real) < 175 \<and>
   parseFloat example_env ''70'' = Num 70 \<and> parseFloat example_env ''175'' = Num 175 \<and>
   bsaValue (Num 70) (Num 175) = Num (0.007184 * 175 powr 0.725 * 70 powr 0.425) \<and>
   bsaText example_env ''70'' ''175'' =
     toFixed example_env (Num (0.007184 * 175 powr 0.725 * 70 powr 0.425)) 3"
proof -
  have p: "parseFloat example_env ''70'' = Num 70 \<and> parseFloat example_env ''175'' = Num 175"
    by (simp add: example_env_def example_parseFloat_def)
  have w: "(0::real) < 70" and h: "(0::real) < 175" by simp_all
  from body_surface_area_DuBois [OF w h, of example_env "''70''" "''175''"] p w h
  show ?thesis by blast
qed

section \<open>The derived fields under dialysis\<close>

lemma scale_lower: "25717 \<le> 100 * x \<Longrightarrow> 257.17 \<le> (x::real)"
  by simp

lemma scale_upper: "100 * x \<le> 25730 \<Longrightarrow> (x::real) \<le> 257.30"
  by simp

lemma powr_product_tight:
  "257.17 \<le> (175::real) powr 0.725 * 70 powr 0.425"
  "(175::real) powr 0.725 * 70 powr 0.425 \<le> 257.30"
proof -
  let ?P = "(175::real) powr 0.725 * 70 powr 0.425"
  let ?Q = "100 * ?P"
  have pos: "0 \<le> ?Q" by simp
  have "?Q ^ 40 = 100 ^ 40 * ?P ^ 40" by (rule power_mult_distrib)
  then have q: "?Q ^ 40 = 100 ^ 40 * (175 ^ 29 * 70 ^ 17)"
    by (simp only: powr_product_pow40)
  have lo: "(25717::real) ^ 40 \<le> ?Q ^ 40" unfolding q by simp
  have "25717 \<le> ?Q"
  proof (rule ccontr)
    assume "\<not> 25717 \<le> ?Q"
    then have "?Q < 25717" by simp
    then have "?Q ^ 40 < 25717 ^ 40" using pos by (intro power_strict_mono) simp_all
    with lo show False by simp
  qed
  then show "257.17 \<le> ?P" by (rule scale_lower)
  have hi: "?Q ^ 40 \<le> (25730::real) ^ 40" unfolding q by simp
  have "?Q \<le> 25730"
  proof (rule ccontr)
    assume "\<not> ?Q \<le> 25730"
    then have "25730 < ?Q" by simp
    then have "(25730::real) ^ 40 < ?Q ^ 40" by (intro power_strict_mono) simp_all
    with hi show False by simp
  qed
  then show "?P \<le> 257.30" by (rule scale_upper)
qed

lemma example_toFixed_1848:
  assumes "257.17 \<le> P" and "P \<le> 257.30"
  shows "example_toFixed (Num (0.007184 * P)) 3 = ''1.848''"
proof -
  let ?x = "0.007184 * P"
  have lo: "1848 \<le> ?x * 10 ^ 3 + 1 / 2" using assms(1) by simp
  have hi: "?x * 10 ^ 3 + 1 / 2 < 1849" using assms(2) by simp
  have fl: "\<lfloor>?x * 10 ^ 3 + 1 / 2\<rfloor> = 1848"
    using lo hi by (simp only: floor_eq_iff) simp
  have ft: "fixed_text ?x 3 = ''1.848''"
    unfolding fixed_text_def fl by (simp add: Let_def)
  have nn: "\<not> ?x < 0" using assms(1) by simp
  have small: "\<not> 10 ^ 21 \<le> \<bar>?x\<bar>" using assms by simp
  show ?thesis
    unfolding example_toFixed_def using nn small ft by (simp only: jsnum.case if_False)
qed

lemma bsa_text_70_175:
  "toFixed example_env (Num (0.007184 * 175 powr 0.725 * 70 powr 0.425)) 3 = ''1.848''"
proof -
  have "(0.007184::real) * 175 powr 0.725 * 70 powr 0.425 =
      0.007184 * (175 powr 0.725 * 70 powr 0.425)"
    by (simp only: mult.assoc)
  then show ?thesis
    using example_toFixed_1848 [OF powr_product_tight]
    by (simp only: toFixed_example_env)
qed

text \<open>
  C1.  When the dialysis flag is set after a change of the form, NewAudit leaves
  the CrCl, normalised CrCl and eGFR fields blank whatever the creatinine field
  holds, and still computes the BSA field: for a positive weight and height it
  is the DuBois value of the two, formatted to three decimals.  Likewise the
  patient shown by PrescriptionInput carries the dialysis marker in the three
  fields when the stored measurement is flagged, and the text of the stored
  BSA.
\<close>

theorem dialysis_fields_not_applicable:
  assumes "isOnDialysis (apply_change e prev)"
  shows "crcl (handlePatientInfoChange env e prev) = [] \<and>
         crclNormalized (handlePatientInfoChange env e prev) = [] \<and>
         egfr (handlePatientInfoChange env e prev) = [] \<and>
         (parseFloat env (weight (apply_change e prev)) = Num w \<and>
          parseFloat env (height (apply_change e prev)) = Num h \<and> 0 < w \<and> 0 < h \<longrightarrow>
            bsa (handlePatientInfoChange env e prev) =
              toFixed env (Num (0.007184 * h powr 0.725 * w powr 0.425)) 3) \<and>
         (is_hd_of (latest_measurement sp) \<longrightarrow>
            crcl (PrescriptionInput_patientInfo toString sp) = s_dialysis \<and>
            crclNormalized (PrescriptionInput_patientInfo toString sp) = s_dialysis \<and>
            egfr (PrescriptionInput_patientInfo toString sp) = s_dialysis) \<and>
         (latest_measurement sp = Some m \<and> m_bsa m = Some x \<and> toString x \<noteq> [] \<longrightarrow>
            bsa (PrescriptionInput_patientInfo toString sp) = toString x)"
proof -
  let ?r = "handlePatientInfoChange env e prev"
  have blank: "crcl ?r = [] \<and> crclNormalized ?r = [] \<and> egfr ?r = []"
    using assms by (simp add: handlePatientInfoChange_def Let_def)
  have b: "bsa ?r =
      bsaText env (weight (apply_change e prev)) (height (apply_change e prev))"
    using assms by (simp add: handlePatientInfoChange_def Let_def)
  have area: "parseFloat env (weight (apply_change e prev)) = Num w \<and>
      parseFloat env (height (apply_change e prev)) = Num h \<and> 0 < w \<and> 0 < h \<longrightarrow>
      bsa ?r = toFixed env (Num (0.007184 * h powr 0.725 * w powr 0.425)) 3"
    by (simp add: b bsaText_def Let_def isNaN_def bsaValue_def)
  have marker: "is_hd_of (latest_measurement sp) \<longrightarrow>
      crcl (PrescriptionInput_patientInfo toString sp) = s_dialysis \<and>
      crclNormalized (PrescriptionInput_patientInfo toString sp) = s_dialysis \<and>
      egfr (PrescriptionInput_patientInfo toString sp) = s_dialysis"
    by (simp add: PrescriptionInput_patientInfo_def Let_def)
  have stored: "latest_measurement sp = Some m \<and> m_bsa m = Some x \<and> toString x \<noteq> [] \<longrightarrow>
      bsa (PrescriptionInput_patientInfo toString sp) = toString x"
    by (simp add: PrescriptionInput_patientInfo_def Let_def text_or_dash_def)
  from blank area marker stored show ?thesis by blast
qed

text \<open>
  The man of the examples, on dialysis, gets blank fields and the BSA 1.848
  when a creatinine is typed in; shown from a stored measurement, he gets the
  marker and the stored BSA.
\<close>

theorem dialysis_fields_not_applicable_witness:
  "isOnDialysis (apply_change (Input F_scr ''1.0'') example_patient) \<and>
   crcl (handlePatientInfoChange example_env (Input F_scr ''1.0'') example_patient) = [] \<and>
   crclNormalized (handlePatientInfoChange example_env (Input F_scr ''1.0'') example_patient) = [] \<and>
   egfr (handlePatientInfoChange example_env (Input F_scr ''1.0'') example_patient) = [] \<and>
   bsa (handlePatientInfoChange example_env (Input F_scr ''1.0'') example_patient) = ''1.848'' \<and>
   crcl (PrescriptionInput_patientInfo example_toString
     \<lparr>pr_name = ''Hong'', pr_sex = ''M'', pr_birth_date = ''1980-06-15'',
      latest_measurement = Some \<lparr>m_weight_kg = Some (Num 70), m_height_cm = Some (Num 175),
       m_scr_mg_dl = Some (Num 10), m_egfr = Some (Num 0), m_crcl = Some (Num 0),
       m_crcl_normalized = Some (Num 0), m_bsa = Some (Num 1.848), m_is_hd = True\<rparr>\<rparr>)
     = s_dialysis \<and>
   bsa (PrescriptionInput_patientInfo example_toString
     \<lparr>pr_name = ''Hong'', pr_sex = ''M'', pr_birth_date = ''1980-06-15'',
      latest_measurement = Some \<lparr>m_weight_kg = Some (Num 70), m_height_cm = Some (Num 175),
       m_scr_mg_dl = Some (Num 10), m_egfr = Some (Num 0), m_crcl = Some (Num 0),
       m_crcl_normalized = Some (Num 0), m_bsa = Some (Num 1.848), m_is_hd = True\<rparr>\<rparr>)
     = ''1.848''"
proof -
  let ?m = "\<lparr>m_weight_kg = Some (Num 70), m_height_cm = Some (Num 175),
       m_scr_mg_dl = Some (Num 10), m_egfr = Some (Num 0), m_crcl = Some (Num 0),
       m_crcl_normalized = Some (Num 0), m_bsa = Some (Num 1.848), m_is_hd = True\<rparr>"
  let ?sp = "\<lparr>pr_name = ''Hong'', pr_sex = ''M'', pr_birth_date = ''1980-06-15'',
      latest_measurement = Some ?m\<rparr>"
  have h: "isOnDialysis (apply_change (Input F_scr ''1.0'') example_patient)"
    by (simp add: example_patient_def)
  have p: "parseFloat example_env (weight (apply_change (Input F_scr ''1.0'') example_patient))
        = Num 70 \<and>
      parseFloat example_env (height (apply_change (Input F_scr ''1.0'') example_patient))
        = Num 175 \<and> (0::real) < 70 \<and> (0::real) < 175"
    by (simp add: example_patient_def example_env_def example_parseFloat_def)
  have d: "is_hd_of (latest_measurement ?sp)"
    by (simp add: is_hd_of_def)
  have t: "example_toString (Num 1.848) = ''1.848''"
    by (simp add: example_toString_def)
  have st: "latest_measurement ?sp = Some ?m \<and> m_bsa ?m = Some (Num 1.848) \<and>
      example_toString (Num 1.848) \<noteq> []"
    using t by simp
  note inst = dialysis_fields_not_applicable [OF h, of example_env 70 175 ?sp example_toString
      ?m "Num 1.848"]
  from inst p have "bsa (handlePatientInfoChange example_env (Input F_scr ''1.0'')
      example_patient) = toFixed example_env (Num (0.007184 * 175 powr 0.725 * 70 powr 0.425)) 3"
    by blast
  then have area: "bsa (handlePatientInfoChange example_env (Input F_scr ''1.0'')
      example_patient) = ''1.848''"
    by (simp only: bsa_text_70_175)
  from inst st have stored: "bsa (PrescriptionInput_patientInfo example_toString ?sp) =
      example_toString (Num 1.848)"
    by blast
  from inst d have marker: "crcl (PrescriptionInput_patientInfo example_toString ?sp) = s_dialysis"
    by blast
  from inst have blank:
    "crcl (handlePatientInfoChange example_env (Input F_scr ''1.0'') example_patient) = [] \<and>
     crclNormalized (handlePatientInfoChange example_env (Input F_scr ''1.0'') example_patient)
       = [] \<and>
     egfr (handlePatientInfoChange example_env (Input F_scr ''1.0'') example_patient) = []"
    by blast
  from h blank area marker stored t show ?thesis by (simp only:)
qed

section \<open>Creatinine clearance\<close>

lemma NewAudit_crcl_Num:
  assumes "0 < s" and "g = ''male'' \<or> g = ''female''"
  shows "NewAudit_crcl (Num a) (Num w) (Num s) g =
           Num ((140 - a) * w / (72 * s) * (if g = ''female'' then 0.85 else 1))"
  using assms by (auto simp: NewAudit_crcl_def)

lemma PatientManagement_crcl_Num:
  assumes "0 < s"
  shows "PatientManagement_crcl (Num a) (Num w) (Num s) g =
           Num ((140 - a) * w / (72 * s) * (if g = ''female'' then 0.85 else 1))"
  using assms by (auto simp: PatientManagement_crcl_def)

text \<open>
  C5, as the code has it.  For a positive creatinine and weight, an age and a
  sex, the Cockcroft-Gault line of both copies computes
  \<open>((140 - age) * weight) / (72 * scr)\<close>, times 0.85 exactly for a woman.
  What NewAudit returns is this value clamped below at zero: the formula itself
  up to the age of 140, and 0 beyond.
\<close>

theorem cockcroft_gault_clamped:
  assumes "0 < s" and "0 < w" and "g = ''male'' \<or> g = ''female''"
    and "NewAudit_age env bd = Num a"
  shows "NewAudit_crcl (Num a) (Num w) (Num s) g =
           Num ((140 - a) * w / (72 * s) * (if g = ''female'' then 0.85 else 1)) \<and>
         PatientManagement_crcl (Num a) (Num w) (Num s) g =
           Num ((140 - a) * w / (72 * s) * (if g = ''female'' then 0.85 else 1)) \<and>
         kf_crcl (NewAudit_calculateKidneyFunction env (Num s) (Num w) h g bd) =
           Num (max ((140 - a) * w / (72 * s) * (if g = ''female'' then 0.85 else 1)) 0) \<and>
         (a \<le> 140 \<longrightarrow>
            kf_crcl (NewAudit_calculateKidneyFunction env (Num s) (Num w) h g bd) =
              Num ((140 - a) * w / (72 * s) * (if g = ''female'' then 0.85 else 1)))"
proof -
  let ?F = "(140 - a) * w / (72 * s) * (if g = ''female'' then 0.85 else 1)"
  have n: "NewAudit_crcl (Num a) (Num w) (Num s) g = Num ?F"
    using assms(1,3) by (rule NewAudit_crcl_Num)
  have p: "PatientManagement_crcl (Num a) (Num w) (Num s) g = Num ?F"
    using assms(1) by (rule PatientManagement_crcl_Num)
  have k: "kf_crcl (NewAudit_calculateKidneyFunction env (Num s) (Num w) h g bd) =
      Num (max ?F 0)"
    by (simp add: NewAudit_calculateKidneyFunction_def Let_def assms(4) n)
  have "0 \<le> ?F" if "a \<le> 140"
  proof -
    have "0 \<le> (140 - a) * w" using that assms(2) by simp
    moreover have "0 < 72 * s" using assms(1) by simp
    ultimately have "0 \<le> (140 - a) * w / (72 * s)" by (rule divide_nonneg_pos)
    moreover have "(0::real) \<le> (if g = ''female'' then 0.85 else 1)" by simp
    ultimately show ?thesis by (rule mult_nonneg_nonneg)
  qed
  note nn = this
  have l: "a \<le> 140 \<longrightarrow>
      kf_crcl (NewAudit_calculateKidneyFunction env (Num s) (Num w) h g bd) = Num ?F"
  proof (intro impI)
    assume "a \<le> 140"
    then have "0 \<le> ?F" by (rule nn)
    then have "max ?F 0 = ?F" by (rule max_absorb1)
    with k show "kf_crcl (NewAudit_calculateKidneyFunction env (Num s) (Num w) h g bd) = Num ?F"
      by (simp only:)
  qed
  from n p k l show ?thesis by blast
qed

theorem cockcroft_gault_clamped_witness:
  "(0::real) < 1 \<and> (0::real) < 70 \<and> NewAudit_age example_env ''1980-06-15'' = Num 45 \<and>
   (45::real) \<le> 140 \<and>
   kf_crcl (NewAudit_calculateKidneyFunction example_env (Num 1) (Num 70) (Num 175) ''male''
      ''1980-06-15'') = Num (6650 / 72)"
  using cockcroft_gault_clamped [of 1 70 "''male''" example_env "''1980-06-15''" 45 "Num 175"]
    NewAudit_age_1980
  by simp

text \<open>
  Above the age of 140 the value returned is not that of the formula: for a man
  born in 1880, of 70 kg and creatinine 1.0, NewAudit returns 0 where the
  formula gives a negative number.
\<close>

theorem cockcroft_gault_counterexample:
  "NewAudit_age example_env ''1880-01-01'' = Num 145 \<and>
   kf_crcl (NewAudit_calculateKidneyFunction example_env (Num 1) (Num 70) (Num 175) ''male''
      ''1880-01-01'') = Num 0 \<and>
   Num 0 \<noteq> Num (((140 - 145) * 70) / (72 * 1))"
  by (simp add: NewAudit_age_1880 NewAudit_calculateKidneyFunction_def NewAudit_crcl_def Let_def)

section \<open>Non-negative results\<close>




text \<open>
  PatientManagement builds the birth date from the resident number, as a year
  from 1900 to 2099.  While the clock reads a year up to 2040, the age
  \<open>calculateAge\<close> gives for such a date is at most 140.
\<close>

lemma resident_number_age_bound:
  assumes "new_Date env bd = Some b" and "1900 \<le> fullYear b"
    and "fullYear (now env) \<le> 2040"
  shows "\<exists>a. calculateAge env bd = Num a \<and> a \<le> 140"
proof -
  let ?k = "fullYear (now env) - fullYear b -
      (if monthIndex (now env) < monthIndex b \<or>
          (monthIndex (now env) = monthIndex b \<and> dayOfMonth (now env) < dayOfMonth b)
       then 1 else 0)"
  have "calculateAge env bd = Num (of_int ?k)"
    using assms(1) by (rule calculateAge_valid)
  moreover have "?k \<le> 140" using assms(2,3) by simp
  then have "(of_int ?k :: real) \<le> 140" by linarith
  ultimately show ?thesis by blast
qed



section \<open>Normalised creatinine clearance\<close>

text \<open>
  C6, as the code has it.  For a finite CrCl and a finite BSA other than zero
  the normalised CrCl both copies compute is \<open>crcl * 1.73 / bsa\<close>, and
  NewAudit returns it clamped below at zero.  Nothing is raised or reported for
  a BSA of zero: the division then yields \<open>Infinity\<close>, \<open>-Infinity\<close> or
  \<open>NaN\<close>, by the sign of CrCl, and NewAudit returns \<open>Infinity\<close> for a
  positive CrCl, \<open>NaN\<close> for a CrCl of zero and 0 for a negative CrCl.
\<close>

theorem normalized_crcl_quotient:
  "(b \<noteq> 0 \<longrightarrow>
      NewAudit_crclNormalized (Num c) (Num b) = Num (c * 1.73 / b) \<and>
      PatientManagement_crclNormalized (Num c) (Num b) = Num (c * 1.73 / b)) \<and>
   NewAudit_crclNormalized (Num c) (Num 0) =
     (if c = 0 then NaN else if 0 < c then PosInf else NegInf) \<and>
   PatientManagement_crclNormalized (Num c) (Num 0) =
     (if c = 0 then NaN else if 0 < c then PosInf else NegInf) \<and>
   (NewAudit_crcl (NewAudit_age env bd) w s g = Num c \<and> bsaValue w h = Num b \<longrightarrow>
      kf_crclNormalized (NewAudit_calculateKidneyFunction env s w h g bd) =
        (if b \<noteq> 0 then Num (max (c * 1.73 / b) 0)
         else if c = 0 then NaN else if 0 < c then PosInf else Num 0))"
proof -
  have q: "b \<noteq> 0 \<longrightarrow>
      NewAudit_crclNormalized (Num c) (Num b) = Num (c * 1.73 / b) \<and>
      PatientManagement_crclNormalized (Num c) (Num b) = Num (c * 1.73 / b)"
    by (simp add: NewAudit_crclNormalized_def PatientManagement_crclNormalized_def)
  have z1: "NewAudit_crclNormalized (Num c) (Num 0) =
      (if c = 0 then NaN else if 0 < c then PosInf else NegInf)"
    by (simp add: NewAudit_crclNormalized_def)
  have z2: "PatientManagement_crclNormalized (Num c) (Num 0) =
      (if c = 0 then NaN else if 0 < c then PosInf else NegInf)"
    by (simp add: PatientManagement_crclNormalized_def)
  have r: "kf_crclNormalized (NewAudit_calculateKidneyFunction env s w h g bd) =
        (if b \<noteq> 0 then Num (max (c * 1.73 / b) 0)
         else if c = 0 then NaN else if 0 < c then PosInf else Num 0)"
    if "NewAudit_crcl (NewAudit_age env bd) w s g = Num c \<and> bsaValue w h = Num b"
  proof -
    have "kf_crclNormalized (NewAudit_calculateKidneyFunction env s w h g bd) =
        Math_max (NewAudit_crclNormalized (Num c) (Num b)) (Num 0)"
      using that by (simp add: NewAudit_calculateKidneyFunction_def Let_def)
    also have "\<dots> = (if b \<noteq> 0 then Num (max (c * 1.73 / b) 0)
         else if c = 0 then NaN else if 0 < c then PosInf else Num 0)"
    proof (cases "b = 0")
      case True
      then show ?thesis by (simp add: z1)
    next
      case False
      then have "NewAudit_crclNormalized (Num c) (Num b) = Num (c * 1.73 / b)"
        using q by blast
      then show ?thesis using False by (simp only: Math_max.simps) simp
    qed
    finally show ?thesis .
  qed
  from q z1 z2 r show ?thesis by blast
qed

text \<open>
  A CrCl of 100 over a BSA of 2; a man of 1 kg and 1 cm (BSA 0.007184); and the
  man of the examples with a height of 0.
\<close>

theorem normalized_crcl_quotient_witness:
  "(2::real) \<noteq> 0 \<and> NewAudit_crclNormalized (Num 100) (Num 2) = Num (173 / 2) \<and>
   PatientManagement_crclNormalized (Num 100) (Num 2) = Num (173 / 2) \<and>
   NewAudit_crcl (NewAudit_age example_env ''1980-06-15'') (Num 1) (Num 1) ''male''
     = Num (95 / 72) \<and>
   bsaValue (Num 1) (Num 1) = Num 0.007184 \<and>
   kf_crclNormalized (NewAudit_calculateKidneyFunction example_env (Num 1) (Num 1) (Num 1)
     ''male'' ''1980-06-15'') = Num (max (95 / 72 * 1.73 / 0.007184) 0) \<and>
   NewAudit_crcl (NewAudit_age example_env ''1980-06-15'') (Num 70) (Num 1) ''male''
     = Num (6650 / 72) \<and>
   bsaValue (Num 70) (Num 0) = Num 0 \<and>
   kf_crclNormalized (NewAudit_calculateKidneyFunction example_env (Num 1) (Num 70) (Num 0)
     ''male'' ''1980-06-15'') = PosInf"
proof -
  have c1: "NewAudit_crcl (NewAudit_age example_env ''1980-06-15'') (Num 1) (Num 1) ''male''
      = Num (95 / 72)"
    by (simp add: NewAudit_age_1980 NewAudit_crcl_def)
  have b1: "bsaValue (Num 1) (Num 1) = Num 0.007184"
    by (simp add: bsaValue_def)
  have c2: "NewAudit_crcl (NewAudit_age example_env ''1980-06-15'') (Num 70) (Num 1) ''male''
      = Num (6650 / 72)"
    by (simp add: NewAudit_age_1980 NewAudit_crcl_def)
  have b2: "bsaValue (Num 70) (Num 0) = Num 0"
    by (simp add: bsaValue_def)
  have nz: "(0.007184::real) \<noteq> 0" and pos: "(0::real) < 6650 / 72" and ne: "(6650::real) / 72 \<noteq> 0"
    by simp_all
  from normalized_crcl_quotient [where b = "0.007184" and c = "95 / 72" and env = example_env
      and bd = "''1980-06-15''" and w = "Num 1" and s = "Num 1" and g = "''male''"
      and h = "Num 1"] c1 b1 nz
  have r1: "kf_crclNormalized (NewAudit_calculateKidneyFunction example_env (Num 1) (Num 1)
      (Num 1) ''male'' ''1980-06-15'') = Num (max (95 / 72 * 1.73 / 0.007184) 0)"
    by (simp only: if_True simp_thms)
  from normalized_crcl_quotient [where b = 0 and c = "6650 / 72" and env = example_env
      and bd = "''1980-06-15''" and w = "Num 70" and s = "Num 1" and g = "''male''"
      and h = "Num 0"] c2 b2 pos ne
  have r2: "kf_crclNormalized (NewAudit_calculateKidneyFunction example_env (Num 1) (Num 70)
      (Num 0) ''male'' ''1980-06-15'') = PosInf"
    by (simp only: if_True if_False simp_thms)
  have q: "(2::real) \<noteq> 0 \<and> NewAudit_crclNormalized (Num 100) (Num 2) = Num (173 / 2) \<and>
      PatientManagement_crclNormalized (Num 100) (Num 2) = Num (173 / 2)"
    using normalized_crcl_quotient [where b = 2 and c = 100] by simp
  from q c1 b1 r1 c2 b2 r2 show ?thesis by (simp only: simp_thms)
qed

text \<open>
  With a height of 0 the BSA is 0, and NewAudit returns \<open>Infinity\<close> as the
  normalised CrCl: a value, not an error.  The form shows it as a result.
\<close>

theorem normalized_crcl_counterexample:
  "kf_crclNormalized (NewAudit_calculateKidneyFunction example_env (Num 1) (Num 70) (Num 0)
      ''male'' ''1980-06-15'') = PosInf \<and>
   crclNormalized (handlePatientInfoChange example_env (Input F_height ''0'')
      example_patient_no_dialysis) = ''Infinity''"
proof -
  have k: "kf_crclNormalized (NewAudit_calculateKidneyFunction example_env (Num 1) (Num 70)
      (Num 0) ''male'' ''1980-06-15'') = PosInf"
    by (simp add: NewAudit_calculateKidneyFunction_def NewAudit_crcl_def Let_def
        NewAudit_age_1980 NewAudit_crclNormalized_def bsaValue_def)
  have p: "parseFloat example_env ''1.0'' = Num 1" "parseFloat example_env ''70'' = Num 70"
    "parseFloat example_env ''0'' = Num 0"
    by (simp_all add: example_env_def example_parseFloat_def)
  have "crclNormalized (handlePatientInfoChange example_env (Input F_height ''0'')
      example_patient_no_dialysis) =
    toFixed example_env (kf_crclNormalized (NewAudit_calculateKidneyFunction example_env
      (Num 1) (Num 70) (Num 0) ''male'' ''1980-06-15'')) 2"
    by (simp add: handlePatientInfoChange_def Let_def example_patient_no_dialysis_def
        example_patient_def p isNaN_def)
  also have "\<dots> = example_toFixed PosInf 2" by (simp only: k toFixed_example_env)
  also have "\<dots> = ''Infinity''" by (simp add: example_toFixed_def)
  finally show ?thesis using k by simp
qed

section \<open>Dependence on the clock\<close>

lemma NewAudit_crcl_of_age:
  assumes "0 < s" and "0 < w" and "a \<le> 140" and "NewAudit_age env bd = Num a"
  shows "kf_crcl (NewAudit_calculateKidneyFunction env (Num s) (Num w) h g bd) =
           Num ((140 - a) * (w * (if g = ''male'' then 1 else 0.85) / (72 * s)))"
proof -
  define q where "q = w * (if g = ''male'' then 1 else 0.85) / (72 * s)"
  have qpos: "0 < q" using assms(1,2) by (simp add: q_def)
  have c: "NewAudit_crcl (Num a) (Num w) (Num s) g = Num ((140 - a) * q)"
    using assms(1) by (simp add: NewAudit_crcl_def q_def)
  have "0 \<le> (140 - a) * q" using assms(3) qpos by simp
  then have m: "max ((140 - a) * q) 0 = (140 - a) * q" by (rule max_absorb1)
  have "kf_crcl (NewAudit_calculateKidneyFunction env (Num s) (Num w) h g bd) =
      Math_max (NewAudit_crcl (NewAudit_age env bd) (Num w) (Num s) g) (Num 0)"
    by (simp add: NewAudit_calculateKidneyFunction_def Let_def)
  also have "\<dots> = Num (max ((140 - a) * q) 0)" by (simp only: assms(4) c Math_max.simps)
  also have "\<dots> = Num ((140 - a) * q)" by (simp only: m)
  finally show ?thesis unfolding q_def .
qed

text \<open>
  C8, as the code has it.  The computation reads the system clock and reads the
  birth date through the local time zone, and it depends on them through the
  age alone: two runs on the same biometrics that compute the same age return
  the same metrics, whatever the clock and the parse of the birth date are.
  Two runs that compute different ages, both at most 140, for a positive
  creatinine and weight, return different creatinine clearances.
\<close>

theorem renal_metrics_depend_on_clock_only:
  "(NewAudit_age e1 bd = NewAudit_age e2 bd \<longrightarrow>
      NewAudit_calculateKidneyFunction e1 s w h g bd =
      NewAudit_calculateKidneyFunction e2 s w h g bd) \<and>
   (calculateAge (e\<lparr>now := d, new_Date := nd\<rparr>) bd = calculateAge e bd \<longrightarrow>
      PatientManagement_calculateKidneyFunction (e\<lparr>now := d, new_Date := nd\<rparr>) s w h g bd =
      PatientManagement_calculateKidneyFunction e s w h g bd) \<and>
   (0 < x \<and> 0 < y \<and> NewAudit_age e1 bd = Num a1 \<and> NewAudit_age e2 bd = Num a2 \<and>
    a1 \<le> 140 \<and> a2 \<le> 140 \<and> a1 \<noteq> a2 \<longrightarrow>
      kf_crcl (NewAudit_calculateKidneyFunction e1 (Num x) (Num y) h g bd) \<noteq>
      kf_crcl (NewAudit_calculateKidneyFunction e2 (Num x) (Num y) h g bd))"
proof (intro conjI impI)
  assume "NewAudit_age e1 bd = NewAudit_age e2 bd"
  then show "NewAudit_calculateKidneyFunction e1 s w h g bd =
      NewAudit_calculateKidneyFunction e2 s w h g bd"
    by (simp add: NewAudit_calculateKidneyFunction_def)
next
  assume "calculateAge (e\<lparr>now := d, new_Date := nd\<rparr>) bd = calculateAge e bd"
  then show "PatientManagement_calculateKidneyFunction (e\<lparr>now := d, new_Date := nd\<rparr>) s w h g bd =
      PatientManagement_calculateKidneyFunction e s w h g bd"
    by (simp add: PatientManagement_calculateKidneyFunction_def)
next
  assume asm: "0 < x \<and> 0 < y \<and> NewAudit_age e1 bd = Num a1 \<and> NewAudit_age e2 bd = Num a2 \<and>
    a1 \<le> 140 \<and> a2 \<le> 140 \<and> a1 \<noteq> a2"
  define q where "q = y * (if g = ''male'' then 1 else 0.85) / (72 * x)"
  have qpos: "0 < q" using asm by (simp add: q_def)
  have k1: "kf_crcl (NewAudit_calculateKidneyFunction e1 (Num x) (Num y) h g bd) =
      Num ((140 - a1) * q)"
    unfolding q_def using asm by (intro NewAudit_crcl_of_age) simp_all
  have k2: "kf_crcl (NewAudit_calculateKidneyFunction e2 (Num x) (Num y) h g bd) =
      Num ((140 - a2) * q)"
    unfolding q_def using asm by (intro NewAudit_crcl_of_age) simp_all
  have "(140 - a1) * q \<noteq> (140 - a2) * q" using asm qpos by simp
  then show "kf_crcl (NewAudit_calculateKidneyFunction e1 (Num x) (Num y) h g bd) \<noteq>
      kf_crcl (NewAudit_calculateKidneyFunction e2 (Num x) (Num y) h g bd)"
    by (simp only: k1 k2 jsnum.inject simp_thms)
qed

text \<open>
  The man of the examples in January and in June 2025 (the same age by the
  years, and the same age by \<open>calculateAge\<close> on 15 June and 1 July), and in
  2025 and 2026 (another age).
\<close>

theorem renal_metrics_depend_on_clock_only_witness:
  "NewAudit_age example_env ''1980-06-15'' =
     NewAudit_age (example_env\<lparr>now := \<lparr>fullYear = 2025, monthIndex = 0, dayOfMonth = 1\<rparr>\<rparr>)
       ''1980-06-15'' \<and>
   NewAudit_calculateKidneyFunction example_env (Num 1) (Num 70) (Num 175) ''male''
      ''1980-06-15'' =
   NewAudit_calculateKidneyFunction
      (example_env\<lparr>now := \<lparr>fullYear = 2025, monthIndex = 0, dayOfMonth = 1\<rparr>\<rparr>)
      (Num 1) (Num 70) (Num 175) ''male'' ''1980-06-15'' \<and>
   calculateAge (example_env\<lparr>now := \<lparr>fullYear = 2025, monthIndex = 6, dayOfMonth = 1\<rparr>,
       new_Date := example_new_Date\<rparr>) ''1980-06-15'' = calculateAge example_env ''1980-06-15'' \<and>
   PatientManagement_calculateKidneyFunction
      (example_env\<lparr>now := \<lparr>fullYear = 2025, monthIndex = 6, dayOfMonth = 1\<rparr>,
         new_Date := example_new_Date\<rparr>) (Num 1) (Num 70) (Num 175) ''male'' ''1980-06-15'' =
   PatientManagement_calculateKidneyFunction example_env (Num 1) (Num 70) (Num 175) ''male''
      ''1980-06-15'' \<and>
   NewAudit_age example_env ''1980-06-15'' = Num 45 \<and>
   NewAudit_age example_env_2026 ''1980-06-15'' = Num 46 \<and>
   kf_crcl (NewAudit_calculateKidneyFunction example_env (Num 1) (Num 70) (Num 175) ''male''
      ''1980-06-15'') \<noteq>
   kf_crcl (NewAudit_calculateKidneyFunction example_env_2026 (Num 1) (Num 70) (Num 175) ''male''
      ''1980-06-15'')"
proof -
  let ?jan = "example_env\<lparr>now := \<lparr>fullYear = 2025, monthIndex = 0, dayOfMonth = 1\<rparr>\<rparr>"
  let ?jul = "\<lparr>fullYear = 2025, monthIndex = 6, dayOfMonth = 1\<rparr>"
  have a1: "NewAudit_age example_env ''1980-06-15'' = NewAudit_age ?jan ''1980-06-15''"
    by (simp add: NewAudit_age_def getFullYear_def example_env_def)
  have a2: "calculateAge (example_env\<lparr>now := ?jul, new_Date := example_new_Date\<rparr>)
      ''1980-06-15'' = calculateAge example_env ''1980-06-15''"
    by (simp add: calculateAge_def Let_def getFullYear_def getMonth_def getDate_def js_eq_def
        example_env_def example_new_Date_def)
  have a3: "NewAudit_age example_env_2026 ''1980-06-15'' = Num 46"
    by (simp add: NewAudit_age_def getFullYear_def example_env_2026_def example_env_def
        example_new_Date_def)
  have n: "(0::real) < 1 \<and> (0::real) < 70 \<and> (45::real) \<le> 140 \<and> (46::real) \<le> 140 \<and>
      (45::real) \<noteq> 46" by simp
  note i1 = renal_metrics_depend_on_clock_only [where ?e1.0 = example_env and ?e2.0 = ?jan
      and bd = "''1980-06-15''" and s = "Num 1" and w = "Num 70" and h = "Num 175"
      and g = "''male''" and e = example_env and d = ?jul and nd = example_new_Date]
  note i2 = renal_metrics_depend_on_clock_only [where ?e1.0 = example_env
      and ?e2.0 = example_env_2026 and bd = "''1980-06-15''" and h = "Num 175"
      and g = "''male''" and x = 1 and y = 70 and ?a1.0 = 45 and ?a2.0 = 46]
  from i1 a1 have r1: "NewAudit_calculateKidneyFunction example_env (Num 1) (Num 70) (Num 175)
      ''male'' ''1980-06-15'' =
      NewAudit_calculateKidneyFunction ?jan (Num 1) (Num 70) (Num 175) ''male'' ''1980-06-15''"
    by blast
  from i1 a2 have r2: "PatientManagement_calculateKidneyFunction
      (example_env\<lparr>now := ?jul, new_Date := example_new_Date\<rparr>) (Num 1) (Num 70) (Num 175)
      ''male'' ''1980-06-15'' =
      PatientManagement_calculateKidneyFunction example_env (Num 1) (Num 70) (Num 175) ''male''
      ''1980-06-15''"
    by blast
  from i2 n NewAudit_age_1980 a3
  have r3: "kf_crcl (NewAudit_calculateKidneyFunction example_env (Num 1) (Num 70) (Num 175)
      ''male'' ''1980-06-15'') \<noteq>
    kf_crcl (NewAudit_calculateKidneyFunction example_env_2026 (Num 1) (Num 70) (Num 175) ''male''
      ''1980-06-15'')"
    by blast
  from a1 r1 a2 r2 NewAudit_age_1980 a3 r3 show ?thesis by (simp only: simp_thms)
qed

text \<open>The same biometrics a year later give another creatinine clearance.\<close>

theorem renal_metrics_clock_counterexample:
  "kf_crcl (NewAudit_calculateKidneyFunction example_env (Num 1) (Num 70) (Num 175) ''male''
      ''1980-06-15'') \<noteq>
   kf_crcl (NewAudit_calculateKidneyFunction example_env_2026 (Num 1) (Num 70) (Num 175) ''male''
      ''1980-06-15'')"
  by (simp add: NewAudit_calculateKidneyFunction_def NewAudit_crcl_def Let_def NewAudit_age_def
      getFullYear_def example_env_2026_def example_env_def example_new_Date_def)

section \<open>The summary of an order\<close>

lemma literals_distinct:
  "s_pending \<noteq> ''-''" "s_normal \<noteq> ''-''" "s_abnormal \<noteq> s_normal"
  "s_abnormal \<noteq> s_pending" "s_normal \<noteq> s_pending"
  by (simp_all add: s_pending_def s_normal_def s_abnormal_def)

text \<open>
  C4, as the code has it.  The badge of AuditHistory reads "pending" when some
  line of the order is pending; otherwise it reads "abnormal" exactly when some
  line is not marked normal (by a dash) and "normal" otherwise.  The popup
  reports issues exactly when some line is marked neither by a dash nor by the
  word for "normal".  Both are computed from the lines.  The submission screens
  do not compute a summary from the lines: for the stored note "normal" they
  show the toast, whatever the lines are.
\<close>

theorem order_summary_from_lines:
  "getStatusBadge ps =
     (if \<exists>p \<in> set ps. audit_result p = s_pending then (''status-badge pending'', s_pending)
      else if \<exists>p \<in> set ps. audit_result p \<noteq> ''-'' then (''status-badge failed'', s_abnormal)
      else (''status-badge completed'', s_normal)) \<and>
   (hasIssues ps \<longleftrightarrow> (\<exists>p \<in> set ps. audit_result p \<noteq> ''-'' \<and> audit_result p \<noteq> s_normal)) \<and>
   getPopupTitle ps =
     (if \<exists>p \<in> set ps. audit_result p \<noteq> ''-'' \<and> audit_result p \<noteq> s_normal
      then t_issues else t_result) \<and>
   issueCount ps =
     length (filter (\<lambda>p. audit_result p \<noteq> ''-'' \<and> audit_result p \<noteq> s_normal) ps) \<and>
   NewAudit_showResult (Some s_normal) ps = Toast \<and>
   PrescriptionInput_showResult True (Some s_normal) ps = Toast"
proof -
  have badge: "getStatusBadge ps =
     (if \<exists>p \<in> set ps. audit_result p = s_pending then (''status-badge pending'', s_pending)
      else if \<exists>p \<in> set ps. audit_result p \<noteq> ''-'' then (''status-badge failed'', s_abnormal)
      else (''status-badge completed'', s_normal))"
  proof (cases "\<exists>p \<in> set ps. audit_result p = s_pending")
    case True
    then show ?thesis by (auto simp: getStatusBadge_def list_ex_iff Let_def)
  next
    case False
    then have "list_ex (\<lambda>p. audit_result p \<noteq> ''-'' \<and> audit_result p \<noteq> s_pending) ps \<longleftrightarrow>
        (\<exists>p \<in> set ps. audit_result p \<noteq> ''-'')"
      by (auto simp: list_ex_iff)
    with False show ?thesis by (simp add: getStatusBadge_def list_ex_iff Let_def)
  qed
  have hi: "hasIssues ps \<longleftrightarrow>
      (\<exists>p \<in> set ps. audit_result p \<noteq> ''-'' \<and> audit_result p \<noteq> s_normal)"
    by (simp add: hasIssues_def list_ex_iff)
  have title: "getPopupTitle ps =
     (if \<exists>p \<in> set ps. audit_result p \<noteq> ''-'' \<and> audit_result p \<noteq> s_normal
      then t_issues else t_result)"
    by (simp add: getPopupTitle_def hi)
  have cnt: "issueCount ps =
     length (filter (\<lambda>p. audit_result p \<noteq> ''-'' \<and> audit_result p \<noteq> s_normal) ps)"
    by (simp add: issueCount_def)
  have note1: "NewAudit_showResult (Some s_normal) ps = Toast"
    by (simp add: NewAudit_showResult_def)
  have note2: "PrescriptionInput_showResult True (Some s_normal) ps = Toast"
    by (simp add: PrescriptionInput_showResult_def)
  from badge hi title cnt note1 note2 show ?thesis by blast
qed

text \<open>
  An order with a contraindicated and a normal line; an order of normal lines;
  an order with a pending line.
\<close>

theorem order_summary_from_lines_witness:
  "getStatusBadge
     [\<lparr>rx_id = 1, drug_name = ''A'', audit_result = s_contraindicated, information = None\<rparr>,
      \<lparr>rx_id = 2, drug_name = ''B'', audit_result = ''-'', information = None\<rparr>] =
     (''status-badge failed'', s_abnormal) \<and>
   hasIssues
     [\<lparr>rx_id = 1, drug_name = ''A'', audit_result = s_contraindicated, information = None\<rparr>,
      \<lparr>rx_id = 2, drug_name = ''B'', audit_result = ''-'', information = None\<rparr>] \<and>
   getStatusBadge
     [\<lparr>rx_id = 1, drug_name = ''A'', audit_result = ''-'', information = None\<rparr>,
      \<lparr>rx_id = 2, drug_name = ''B'', audit_result = ''-'', information = None\<rparr>] =
     (''status-badge completed'', s_normal) \<and>
   \<not> hasIssues
     [\<lparr>rx_id = 1, drug_name = ''A'', audit_result = ''-'', information = None\<rparr>,
      \<lparr>rx_id = 2, drug_name = ''B'', audit_result = ''-'', information = None\<rparr>] \<and>
   getStatusBadge
     [\<lparr>rx_id = 1, drug_name = ''A'', audit_result = s_pending, information = None\<rparr>] =
     (''status-badge pending'', s_pending)"
  using order_summary_from_lines
    [of "[\<lparr>rx_id = 1, drug_name = ''A'', audit_result = s_contraindicated, information = None\<rparr>,
          \<lparr>rx_id = 2, drug_name = ''B'', audit_result = ''-'', information = None\<rparr>]"]
    order_summary_from_lines
    [of "[\<lparr>rx_id = 1, drug_name = ''A'', audit_result = ''-'', information = None\<rparr>,
          \<lparr>rx_id = 2, drug_name = ''B'', audit_result = ''-'', information = None\<rparr>]"]
    order_summary_from_lines
    [of "[\<lparr>rx_id = 1, drug_name = ''A'', audit_result = s_pending, information = None\<rparr>]"]
  by (simp add: s_pending_def s_normal_def s_contraindicated_def)

text \<open>
  An order with a contraindicated line and a pending line is shown as pending,
  not as abnormal.  An order whose one line carries the word for "normal" has
  the badge "abnormal" in AuditHistory, while the popup reports no issue.  An
  order stored with the note "normal" gets the toast on both submission
  screens although one of its lines is contraindicated, and the popup would
  report an issue for the same lines.
\<close>

theorem order_summary_counterexample:
  "getStatusBadge
     [\<lparr>rx_id = 1, drug_name = ''A'', audit_result = s_contraindicated, information = None\<rparr>,
      \<lparr>rx_id = 2, drug_name = ''B'', audit_result = s_pending, information = None\<rparr>]
   = (''status-badge pending'', s_pending) \<and>
   s_pending \<noteq> s_abnormal \<and> s_contraindicated \<noteq> ''-'' \<and> s_contraindicated \<noteq> s_normal \<and>
   getStatusBadge
     [\<lparr>rx_id = 1, drug_name = ''A'', audit_result = s_normal, information = None\<rparr>]
   = (''status-badge failed'', s_abnormal) \<and>
   \<not> hasIssues
     [\<lparr>rx_id = 1, drug_name = ''A'', audit_result = s_normal, information = None\<rparr>] \<and>
   NewAudit_showResult (Some s_normal)
     [\<lparr>rx_id = 1, drug_name = ''A'', audit_result = s_contraindicated, information = None\<rparr>]
   = Toast \<and>
   PrescriptionInput_showResult True (Some s_normal)
     [\<lparr>rx_id = 1, drug_name = ''A'', audit_result = s_contraindicated, information = None\<rparr>]
   = Toast \<and>
   hasIssues
     [\<lparr>rx_id = 1, drug_name = ''A'', audit_result = s_contraindicated, information = None\<rparr>]"
  by (simp add: getStatusBadge_def hasIssues_def Let_def NewAudit_showResult_def
      PrescriptionInput_showResult_def s_pending_def s_abnormal_def s_normal_def
      s_contraindicated_def)

section \<open>Severity\<close>

lemma most_severe_mem: "most_severe r xs \<in> set (r # xs)"
  by (induction xs arbitrary: r) (auto split: if_splits)

lemma most_severe_ge_head:
  "severity (r_category r) \<le> severity (r_category (most_severe r xs))"
proof (induction xs arbitrary: r)
  case Nil
  show ?case by simp
next
  case (Cons y ys)
  show ?case
  proof (cases "severity (r_category r) < severity (r_category y)")
    case True
    then have "severity (r_category r) \<le> severity (r_category y)" by simp
    also have "\<dots> \<le> severity (r_category (most_severe y ys))" by (rule Cons.IH)
    finally show ?thesis using True by simp
  next
    case False
    then show ?thesis using Cons.IH[of r] by simp
  qed
qed

lemma most_severe_ge:
  "x \<in> set (r # xs) \<Longrightarrow> severity (r_category x) \<le> severity (r_category (most_severe r xs))"
proof (induction xs arbitrary: r)
  case Nil
  then show ?case by simp
next
  case (Cons y ys)
  show ?case
  proof (cases "severity (r_category r) < severity (r_category y)")
    case True
    have y: "severity (r_category y) \<le> severity (r_category (most_severe y ys))"
      by (rule most_severe_ge_head)
    from Cons.prems consider "x = r" | "x \<in> set (y # ys)" by auto
    then show ?thesis
    proof cases
      case 1
      then show ?thesis using True y by simp
    next
      case 2
      then show ?thesis using True Cons.IH[of y] by simp
    qed
  next
    case False
    from Cons.prems consider "x = y" | "x \<in> set (r # ys)" by auto
    then show ?thesis
    proof cases
      case 1
      have "severity (r_category r) \<le> severity (r_category (most_severe r ys))"
        by (rule most_severe_ge_head)
      then show ?thesis using False 1 by simp
    next
      case 2
      then show ?thesis using False Cons.IH[of r] by simp
    qed
  qed
qed

lemma severity_top: "3 \<le> severity c \<Longrightarrow> c = Contraindicated"
  by (cases c) simp_all

text \<open>
  C9.  When no dialysis rule applies and some numeric constraints of the drug
  match, the category returned is that of a matching constraint, and no
  matching constraint is more severe.  With a rule "contraindicated below 30"
  and a rule "dose adjustment below 60", a CrCl of 20 is classified as
  contraindicated.
\<close>

theorem most_severe_matching_rule_wins:
  assumes "\<not> (onDialysis \<and> (\<exists>r \<in> set rs. r_isDialysisRule r))"
    and "\<exists>r \<in> set rs. matches m r"
  shows "(\<exists>r \<in> set rs. matches m r \<and>
            oc_category (evaluate (Some rs) onDialysis m) = r_category r) \<and>
         (\<forall>r \<in> set rs. matches m r \<longrightarrow>
            severity (r_category r) \<le> severity (oc_category (evaluate (Some rs) onDialysis m))) \<and>
         oc_category (evaluate (Some [rule_contraindicated_below_30, rule_dose_adjustment_below_60])
            False metrics_crcl_20) = Contraindicated"
proof -
  from assms(2) obtain x xs where f: "filter (matches m) rs = x # xs"
    by (cases "filter (matches m) rs") (auto simp: filter_empty_conv)
  from assms(1) have d: "(if onDialysis then filter r_isDialysisRule rs else []) = []"
    by (auto simp: filter_empty_conv)
  from assms(2) have "rs \<noteq> []" by auto
  then obtain y ys where rs: "rs = y # ys" by (cases rs) auto
  have ev: "evaluate (Some rs) onDialysis m = outcome_of m (most_severe x xs)"
    using d f unfolding evaluate_def rs by simp
  have cat: "oc_category (evaluate (Some rs) onDialysis m) = r_category (most_severe x xs)"
    by (simp add: ev outcome_of_def)
  have "most_severe x xs \<in> set (filter (matches m) rs)"
    using most_severe_mem[of x xs] f by simp
  then have "most_severe x xs \<in> set rs" "matches m (most_severe x xs)" by simp_all
  then have 1: "\<exists>r \<in> set rs. matches m r \<and>
      oc_category (evaluate (Some rs) onDialysis m) = r_category r"
    using cat by blast
  have ge: "severity (r_category r) \<le> severity (r_category (most_severe x xs))"
    if "r \<in> set rs" "matches m r" for r
  proof -
    from that have "r \<in> set (filter (matches m) rs)" by simp
    then have "r \<in> set (x # xs)" by (simp only: f)
    then show ?thesis by (rule most_severe_ge)
  qed
  have 2: "\<forall>r \<in> set rs. matches m r \<longrightarrow>
      severity (r_category r) \<le> severity (oc_category (evaluate (Some rs) onDialysis m))"
    using ge cat by simp
  have 3: "oc_category (evaluate (Some [rule_contraindicated_below_30,
      rule_dose_adjustment_below_60]) False metrics_crcl_20) = Contraindicated"
    by (simp add: evaluate_def matches_def metric_value_def in_range_def outcome_of_def
        rule_contraindicated_below_30_def rule_dose_adjustment_below_60_def metrics_crcl_20_def)
  from 1 2 3 show ?thesis by blast
qed

text \<open>The same two rules in the other order give the same verdict.\<close>

theorem most_severe_matching_rule_wins_witness:
  "matches metrics_crcl_20 rule_contraindicated_below_30 \<and>
   matches metrics_crcl_20 rule_dose_adjustment_below_60 \<and>
   oc_category (evaluate (Some [rule_dose_adjustment_below_60, rule_contraindicated_below_30])
      False metrics_crcl_20) = Contraindicated"
proof -
  have a: "matches metrics_crcl_20 rule_contraindicated_below_30"
    by (simp add: matches_def metric_value_def in_range_def metrics_crcl_20_def
        rule_contraindicated_below_30_def)
  have b: "matches metrics_crcl_20 rule_dose_adjustment_below_60"
    by (simp add: matches_def metric_value_def in_range_def metrics_crcl_20_def
        rule_dose_adjustment_below_60_def)
  have h1: "\<not> (False \<and> (\<exists>r \<in> set [rule_dose_adjustment_below_60,
      rule_contraindicated_below_30]. r_isDialysisRule r))" by simp
  have h2: "\<exists>r \<in> set [rule_dose_adjustment_below_60, rule_contraindicated_below_30].
      matches metrics_crcl_20 r" using a by simp
  from most_severe_matching_rule_wins [OF h1 h2] a
  have "severity (r_category rule_contraindicated_below_30) \<le>
      severity (oc_category (evaluate (Some [rule_dose_adjustment_below_60,
        rule_contraindicated_below_30]) False metrics_crcl_20))"
    by simp
  then have "3 \<le> severity (oc_category (evaluate (Some [rule_dose_adjustment_below_60,
        rule_contraindicated_below_30]) False metrics_crcl_20))"
    by (simp add: rule_contraindicated_below_30_def)
  then have "oc_category (evaluate (Some [rule_dose_adjustment_below_60,
        rule_contraindicated_below_30]) False metrics_crcl_20) = Contraindicated"
    by (rule severity_top)
  with a b show ?thesis by blast
qed

end
